theory Spec2Isabelle
  imports Complex_Main "HOL-Library.Log_Nat"
begin

section \<open>Data model\<close>

text \<open>
  A rectangle is the Python tuple \<open>(x, y, width, height)\<close>. Coordinates are Python
  integers. Scale factors are Python floats; they are idealised as reals, so the
  theorems about them speak of which quotient is selected, not of its rounding.
\<close>

type_synonym rect = "int \<times> int \<times> int \<times> int"

text \<open>An exception value; the payload is what \<open>str(e)\<close> prints.\<close>

datatype exn = PyErr string

text \<open>
  The two Qt signals of \<open>DetectionWorker\<close>: \<open>result_signal(list, list, list, int)\<close>
  and \<open>text_signal(QImage, str)\<close>. The null image \<open>QImage()\<close> is \<open>None\<close>.
\<close>

datatype 'q signal =
    ResultSignal "rect list" "rect list" "rect list" int
  | TextSignal "'q option" string

text \<open>
  The attributes set by \<open>DetectionWorker.__init__\<close>. An absent (\<open>None\<close>) value is
  \<open>None\<close>; the anchor configuration is a Python dict, kept as an association list.
\<close>

record 'img worker =
  mode :: string
  template_img :: "'img option"
  screen_idx :: int
  confidence :: real
  grayscale :: bool
  overlap_threshold :: real
  anchor_img :: "'img option"
  anchor_config :: "(string \<times> int) list option"
  search_region :: "rect option"
  source_dpr :: "real option"
  source_resolution :: "(int \<times> int) option"
  scaling_type :: string
  ocr_lang :: string
  ocr_mode :: string
  use_det :: bool
  text_rect :: "rect option"
  text_offsets :: "(int \<times> int \<times> int \<times> int) option"

text \<open>The keyword arguments of one \<open>session.locateAllOnScreen\<close> call.\<close>

record 'img locate_args =
  la_image :: "'img option"
  la_grayscale :: bool
  la_confidence :: real
  la_overlap_threshold :: real
  la_region :: "rect option"
  la_scaling_type :: string

text \<open>
  The external collaborators, taken as parameters: module \<open>functions\<close> (session
  construction, monitor enumeration, the search and capture primitives), OpenCV and Qt
  (the preview conversion) and the WinRT recognition engine. Each may raise (\<open>Inl\<close>).
  The search primitive returns a sequence that supports \<open>len\<close> and repeated iteration
  (the direct scan calls \<open>len\<close> on its result), hence a list. The capture primitive
  returns \<open>None\<close> for \<open>img_data is None or img_data.size == 0\<close>.
\<close>

record ('img, 'q) env =
  new_session :: "exn + unit"
  get_monitors_safe :: "exn + rect list"
  get_monitor_dpr :: "int \<Rightarrow> rect list \<Rightarrow> exn + real option"
  locateAllOnScreen :: "'img locate_args \<Rightarrow> exn + rect list"
  prepare_capture :: "rect \<Rightarrow> exn + 'img option"
  to_qimage :: "'img \<Rightarrow> exn + 'q"
  winrt_available :: bool
  recognize :: "'img \<Rightarrow> string \<Rightarrow> exn + string list"

section \<open>Python primitives\<close>

text \<open>Sequencing inside a \<open>try\<close> block: the first exception raised leaves the block.\<close>

fun ebind :: "exn + 'a \<Rightarrow> ('a \<Rightarrow> exn + 'b) \<Rightarrow> exn + 'b" where
  "ebind (Inl e) f = Inl e"
| "ebind (Inr v) f = f v"

text \<open>
  Subscription \<open>xs[i]\<close> of a list: indices from \<open>-len(xs)\<close> up to \<open>-1\<close> address
  the list from its end, and anything outside \<open>-len(xs) .. len(xs) - 1\<close> is an IndexError.
\<close>

definition py_index :: "'a list \<Rightarrow> int \<Rightarrow> exn + 'a" where
  "py_index xs i =
     (if 0 \<le> i \<and> i < int (length xs) then Inr (xs ! nat i)
      else if i < 0 \<and> - int (length xs) \<le> i then Inr (xs ! nat (int (length xs) + i))
      else Inl (PyErr ''list index out of range''))"

text \<open>\<open>d[k]\<close> raises KeyError on a missing key; \<open>d.get(k, default)\<close> does not.\<close>

definition dict_item :: "(string \<times> int) list \<Rightarrow> string \<Rightarrow> exn + int" where
  "dict_item d k =
     (case map_of d k of
        None \<Rightarrow> Inl (PyErr ([CHR 0x27] @ k @ [CHR 0x27]))
      | Some v \<Rightarrow> Inr v)"

definition dict_get :: "(string \<times> int) list \<Rightarrow> string \<Rightarrow> int \<Rightarrow> int" where
  "dict_get d k dflt = (case map_of d k of None \<Rightarrow> dflt | Some v \<Rightarrow> v)"

text \<open>\<open>int(v)\<close> on a float truncates towards zero.\<close>

definition py_int :: "real \<Rightarrow> int" where
  "py_int v = (if 0 \<le> v then \<lfloor>v\<rfloor> else \<lceil>v\<rceil>)"

text \<open>Truthiness of an optional dict: \<open>None\<close> and \<open>{}\<close> are false.\<close>

fun truthy_dict :: "(string \<times> int) list option \<Rightarrow> bool" where
  "truthy_dict None = False"
| "truthy_dict (Some []) = False"
| "truthy_dict (Some (kv # d)) = True"

text \<open>Attribute access on an optional dict: \<open>None.get\<close> raises AttributeError.\<close>

fun dict_of :: "(string \<times> int) list option \<Rightarrow> exn + (string \<times> int) list" where
  "dict_of None = Inl (PyErr ''NoneType object has no attribute get'')"
| "dict_of (Some d) = Inr d"

text \<open>Unpacking an optional 4-tuple: unpacking \<open>None\<close> raises TypeError.\<close>

fun unpack4 :: "(int \<times> int \<times> int \<times> int) option \<Rightarrow> exn + int \<times> int \<times> int \<times> int" where
  "unpack4 None = Inl (PyErr ''cannot unpack non-iterable NoneType object'')"
| "unpack4 (Some t) = Inr t"

text \<open>\<open>sep.join(lines)\<close> with the newline as separator.\<close>

fun join_lines :: "string list \<Rightarrow> string" where
  "join_lines [] = []"
| "join_lines [l] = l"
| "join_lines (l # m # ls) = l @ [CHR 0x0A] @ join_lines (m # ls)"

text \<open>The values passed as keyword arguments to the recognition entry point.\<close>

datatype pyval = PStr string | PBool bool

text \<open>Truthiness of an optional float: \<open>None\<close> and \<open>0.0\<close> are false.\<close>

fun truthy_float :: "real option \<Rightarrow> bool" where
  "truthy_float None = False"
| "truthy_float (Some v) = (v \<noteq> 0)"

section \<open>Coordinate transforms (module utils)\<close>

text \<open>
  Modelled from the spec: \<open>utils.global_to_local\<close> and \<open>utils.local_to_global\<close>
  are imported by \<open>detection.py\<close> but their module is not among the sources. Section 4.1:
  subtract (add) the origin's x and y from (to) the rectangle's x and y, width and
  height unchanged.
\<close>

fun global_to_local :: "rect \<Rightarrow> int \<times> int \<Rightarrow> rect" where
  "global_to_local (x, y, w, h) (ox, oy) = (x - ox, y - oy, w, h)"

fun local_to_global :: "rect \<Rightarrow> int \<times> int \<Rightarrow> rect" where
  "local_to_global (x, y, w, h) (ox, oy) = (x + ox, y + oy, w, h)"

subsection \<open>Float coordinates\<close>












section \<open>The image detection pipeline\<close>

text \<open>
  Lines 176 to 190 of \<open>run_image_detection\<close>: both factors start at 1.0 and are
  overwritten only inside the guarded branches.
\<close>

definition compute_scale :: "'img worker \<Rightarrow> real option \<Rightarrow> rect \<Rightarrow> real \<times> real" where
  "compute_scale req target_dpr selected_screen =
     (if scaling_type req = ''dpr'' then
        (if truthy_float (source_dpr req) \<and> truthy_float target_dpr then
           (case (source_dpr req, target_dpr) of
              (Some s, Some t) \<Rightarrow> (let ratio = t / s in (ratio, ratio))
            | _ \<Rightarrow> (1, 1))
         else (1, 1))
      else if scaling_type req = ''resolution'' then
        (case source_resolution req of
           None \<Rightarrow> (1, 1)
         | Some (sr_w, sr_h) \<Rightarrow>
             (case selected_screen of (mx, my, tr_w, tr_h) \<Rightarrow>
                if sr_w > 0 \<and> sr_h > 0
                then (real_of_int tr_w / real_of_int sr_w, real_of_int tr_h / real_of_int sr_h)
                else (1, 1)))
      else (1, 1))"

text \<open>The arguments of the anchor search, of a nested scan and of the direct scan.\<close>

definition anchor_args :: "'img worker \<Rightarrow> 'img locate_args" where
  "anchor_args req =
     \<lparr>la_image = anchor_img req, la_grayscale = grayscale req,
      la_confidence = confidence req, la_overlap_threshold = overlap_threshold req,
      la_region = search_region req, la_scaling_type = scaling_type req\<rparr>"

definition template_args :: "'img worker \<Rightarrow> rect option \<Rightarrow> 'img locate_args" where
  "template_args req region =
     \<lparr>la_image = template_img req, la_grayscale = grayscale req,
      la_confidence = confidence req, la_overlap_threshold = overlap_threshold req,
      la_region = region, la_scaling_type = scaling_type req\<rparr>"

text \<open>
  Lines 208 to 217: the region derived from one anchor match. The dict lookups raise
  KeyError in the order the source evaluates them.
\<close>

definition derived_region :: "(string \<times> int) list \<Rightarrow> int \<Rightarrow> int \<Rightarrow> rect \<Rightarrow> exn + rect" where
  "derived_region cfg margin_x margin_y anchor =
     (case anchor of (ax, ay, aw, ah) \<Rightarrow>
        ebind (dict_item cfg ''offset_x'') (\<lambda>offset_x.
        ebind (dict_item cfg ''offset_y'') (\<lambda>offset_y.
          (let rel_rect_with_margin =
                 global_to_local (offset_x, offset_y, 0, 0) (margin_x, margin_y)
           in (case local_to_global rel_rect_with_margin (ax, ay) of
                 (region_x, region_y, u, v) \<Rightarrow>
                   ebind (dict_item cfg ''w'') (\<lambda>w.
                   ebind (dict_item cfg ''h'') (\<lambda>h.
                     Inr (region_x, region_y, w + margin_x * 2, h + margin_y * 2))))))))"

text \<open>Lines 235 and 236: \<open>for rect in targets: final_rects.append(rect)\<close>.\<close>

definition append_each :: "rect list \<Rightarrow> rect list \<Rightarrow> rect list" where
  "append_each final_rects targets = foldl (\<lambda>acc rect_v. acc @ [rect_v]) final_rects targets"

text \<open>
  Lines 207 to 237: the loop over the anchors. The state is the pair
  \<open>(final_rects, scanned_regions)\<close>. After the append loop of lines 235 and 236 the
  source runs \<open>final_rects.extend(list(targets))\<close> on the same sequence (line 237).
\<close>

fun anchor_loop ::
  "('img, 'q) env \<Rightarrow> 'img worker \<Rightarrow> (string \<times> int) list \<Rightarrow> int \<Rightarrow> int \<Rightarrow> rect \<Rightarrow>
   rect list \<Rightarrow> rect list \<times> rect list \<Rightarrow> exn + rect list \<times> rect list" where
  "anchor_loop env req cfg margin_x margin_y selected_screen [] st = Inr st"
| "anchor_loop env req cfg margin_x margin_y selected_screen (anchor # rest) (final_rects, scanned_regions) =
     ebind (derived_region cfg margin_x margin_y anchor) (\<lambda>(region_x, region_y, region_w, region_h).
       if region_w \<le> 0 \<or> region_h \<le> 0
       then anchor_loop env req cfg margin_x margin_y selected_screen rest (final_rects, scanned_regions)
       else
         (let scanned_regions' = scanned_regions @ [(region_x, region_y, region_w, region_h)]
          in (case selected_screen of (mx, my, mw, mh) \<Rightarrow>
                (let local_search_region =
                       global_to_local (region_x, region_y, region_w, region_h) (mx, my)
                 in ebind (locateAllOnScreen env (template_args req (Some local_search_region)))
                      (\<lambda>targets.
                         anchor_loop env req cfg margin_x margin_y selected_screen rest
                           (append_each final_rects targets @ targets, scanned_regions'))))))"

text \<open>
  The body of the \<open>try\<close> block of \<open>run_image_detection\<close>: the signals it emits, or the
  exception that leaves it. The scanned region of the direct scan, \<open>int(rx * scale_x)\<close>
  and its three companions, is taken from the real product; Python truncates the
  rounded float product, which can be one less or one more where the real product is
  an integer or next to one.
\<close>

definition run_image_detection_body :: "('img, 'q) env \<Rightarrow> 'img worker \<Rightarrow> exn + 'q signal list" where
  "run_image_detection_body env req =
     ebind (get_monitors_safe env) (\<lambda>monitors.
     ebind (new_session env) (\<lambda>session.
       if screen_idx req < int (length monitors) then
         ebind (py_index monitors (screen_idx req)) (\<lambda>selected_screen.
         ebind (get_monitor_dpr env (screen_idx req) monitors) (\<lambda>target_dpr.
           (case compute_scale req target_dpr selected_screen of (scale_x, scale_y) \<Rightarrow>
              if anchor_img req \<noteq> None \<and> truthy_dict (anchor_config req) then
                ebind (locateAllOnScreen env (anchor_args req)) (\<lambda>anchors_list.
                ebind (dict_of (anchor_config req)) (\<lambda>cfg.
                  (let margin_x = dict_get cfg ''margin_x'' 0;
                       margin_y = dict_get cfg ''margin_y'' 0
                   in ebind (anchor_loop env req cfg margin_x margin_y selected_screen
                               anchors_list ([], []))
                        (\<lambda>(final_rects, scanned_regions).
                           Inr [ResultSignal final_rects anchors_list scanned_regions
                                  (int (length final_rects))]))))
              else
                (let scanned_regions =
                       (case search_region req of
                          None \<Rightarrow> []
                        | Some (rx, ry, rw, rh) \<Rightarrow>
                            [(py_int (real_of_int rx * scale_x), py_int (real_of_int ry * scale_y),
                              py_int (real_of_int rw * scale_x), py_int (real_of_int rh * scale_y))])
                 in ebind (locateAllOnScreen env (template_args req (search_region req)))
                      (\<lambda>rects.
                         Inr [ResultSignal rects [] scanned_regions (int (length rects))])))))
       else Inr [ResultSignal [] [] [] 0]))"

text \<open>The \<open>except Exception\<close> handler of lines 262 to 265 emits the empty result.\<close>

definition run_image_detection :: "('img, 'q) env \<Rightarrow> 'img worker \<Rightarrow> 'q signal list" where
  "run_image_detection env req =
     (case run_image_detection_body env req of
        Inl e \<Rightarrow> [ResultSignal [] [] [] 0]
      | Inr out \<Rightarrow> out)"

section \<open>Text recognition (module text\_recognition)\<close>

text \<open>
  \<open>get_text_from_image(image_data, lang='en-US')\<close>. The steps
  \<open>preprocess_image\<close>, \<open>_numpy_to_software_bitmap\<close> and the WinRT engine run are
  the parameter \<open>recognize\<close>; whatever they raise is re-raised as a RuntimeError.
\<close>

definition get_text_from_image :: "('img, 'q) env \<Rightarrow> 'img option \<Rightarrow> string \<Rightarrow> exn + string list" where
  "get_text_from_image env image_data lang =
     (if \<not> winrt_available env then Inl (PyErr (''WinRT libraries not found. Run: pip install winrt-Windows.Media.Ocr ''
                 @ ''winrt-Windows.Graphics.Imaging winrt-Windows.Storage.Streams''))
      else
        (case image_data of
           None \<Rightarrow> Inl (PyErr ''Input image_data is None or empty.'')
         | Some img \<Rightarrow>
             (case recognize env img lang of
                Inl (PyErr m) \<Rightarrow> Inl (PyErr (''OCR Execution Failed: '' @ m))
              | Inr text_lines \<Rightarrow> Inr text_lines)))"

text \<open>
  A call \<open>get_text_from_image(image_data, **keywords)\<close>: Python binds the keywords to
  the parameters \<open>image_data\<close> and \<open>lang\<close> before the body runs, and raises TypeError
  for a keyword that is not a parameter. An unbound \<open>lang\<close> takes its default.
\<close>

definition get_text_from_image_params :: "string list" where
  "get_text_from_image_params = [''image_data'', ''lang'']"

definition call_get_text_from_image ::
  "('img, 'q) env \<Rightarrow> 'img option \<Rightarrow> (string \<times> pyval) list \<Rightarrow> exn + string list" where
  "call_get_text_from_image env image_data keywords =
     (case filter (\<lambda>k. k \<notin> set get_text_from_image_params) (map fst keywords) of
        k # ks \<Rightarrow>
          Inl (PyErr (''get_text_from_image() got an unexpected keyword argument ''
                      @ [CHR 0x27] @ k @ [CHR 0x27]))
      | [] \<Rightarrow>
          get_text_from_image env image_data
            (case map_of keywords ''lang'' of Some (PStr l) \<Rightarrow> l | _ \<Rightarrow> ''en-US''))"

section \<open>The text extraction pipeline\<close>

text \<open>
  Lines 66 to 98 of \<open>run_text_extraction\<close>: the region before fine tuning. The result
  is an early emission (\<open>Inl\<close>, followed by \<open>return\<close> in the source) or the value of
  \<open>final_region\<close>, which may be \<open>None\<close>.
\<close>

definition resolve_final_region ::
  "('img, 'q) env \<Rightarrow> 'img worker \<Rightarrow> exn + ('q signal + rect option)" where
  "resolve_final_region env req =
     (if anchor_img req \<noteq> None \<and> truthy_dict (anchor_config req) \<and> text_rect req \<noteq> None then
        ebind (locateAllOnScreen env (anchor_args req)) (\<lambda>anchors_list.
          (case anchors_list of
             [] \<Rightarrow> Inr (Inl (TextSignal None ''Anchor not found''))
           | (ax, ay, aw, ah) # others \<Rightarrow>
               ebind (unpack4 (text_rect req)) (\<lambda>(rel_x, rel_y, w, h).
                 (let final_x = ax + rel_x; final_y = ay + rel_y
                  in Inr (Inr (Some (final_x, final_y, w, h)))))))
      else Inr (Inr (text_rect req)))"

text \<open>Lines 106 to 114: the fine-tuning offsets \<open>(top, bottom, left, right)\<close>.\<close>

definition apply_offsets :: "rect \<Rightarrow> int \<times> int \<times> int \<times> int \<Rightarrow> rect" where
  "apply_offsets final_region offs =
     (case final_region of (fx, fy, fw, fh) \<Rightarrow>
      (case offs of (top_o, bottom_o, left_o, right_o) \<Rightarrow>
        (let adj_x = fx - left_o; adj_y = fy - top_o;
             adj_w = fw + left_o + right_o; adj_h = fh + top_o + bottom_o
         in (adj_x, adj_y, adj_w, adj_h))))"

text \<open>
  Lines 118 to 148: capture, preview conversion and recognition. The recognition call
  passes the keywords \<open>mode\<close> and \<open>use_det\<close>; its exceptions become the text.
\<close>

definition capture_and_recognize ::
  "('img, 'q) env \<Rightarrow> 'img worker \<Rightarrow> rect \<Rightarrow> exn + 'q signal list" where
  "capture_and_recognize env req capture_region =
     ebind (prepare_capture env capture_region) (\<lambda>img_data.
       (case img_data of
          None \<Rightarrow> Inr [TextSignal None ''Capture Error'']
        | Some img \<Rightarrow>
            ebind (to_qimage env img) (\<lambda>q_img.
              (let full_text =
                     (case call_get_text_from_image env (Some img)
                             [(''mode'', PStr (ocr_mode req)), (''use_det'', PBool (use_det req))] of
                        Inr text_lines \<Rightarrow> join_lines text_lines
                      | Inl (PyErr m) \<Rightarrow> ''OCR Error: '' @ m)
               in Inr [TextSignal (Some q_img) full_text]))))"

text \<open>
  The body of the \<open>try\<close> block of \<open>run_text_extraction\<close>. The \<open>else\<close> branch of the
  monitor check (lines 62 and 63) is a bare \<open>return\<close>: nothing is emitted.
\<close>

definition run_text_extraction_body :: "('img, 'q) env \<Rightarrow> 'img worker \<Rightarrow> exn + 'q signal list" where
  "run_text_extraction_body env req =
     ebind (new_session env) (\<lambda>session.
     ebind (get_monitors_safe env) (\<lambda>monitors.
       if screen_idx req < int (length monitors) then
         ebind (py_index monitors (screen_idx req)) (\<lambda>selected_screen.
         ebind (resolve_final_region env req) (\<lambda>resolved.
           (case resolved of
              Inl early \<Rightarrow> Inr [early]
            | Inr final_region \<Rightarrow>
                (case final_region of
                   None \<Rightarrow> Inr [TextSignal None ''No region defined'']
                 | Some region \<Rightarrow>
                     ebind (unpack4 (text_offsets req)) (\<lambda>offs.
                       capture_and_recognize env req (apply_offsets region offs))))))
       else Inr []))"

text \<open>The \<open>except Exception\<close> handler of lines 150 to 152.\<close>

definition run_text_extraction :: "('img, 'q) env \<Rightarrow> 'img worker \<Rightarrow> 'q signal list" where
  "run_text_extraction env req =
     (case run_text_extraction_body env req of
        Inl (PyErr m) \<Rightarrow> [TextSignal None (''Error: '' @ m)]
      | Inr out \<Rightarrow> out)"

text \<open>\<open>DetectionWorker.run\<close> dispatches on the mode.\<close>

definition run :: "('img, 'q) env \<Rightarrow> 'img worker \<Rightarrow> 'q signal list" where
  "run env req =
     (if mode req = ''text'' then run_text_extraction env req
      else run_image_detection env req)"

section \<open>Concrete requests and environments\<close>

text \<open>
  One monitor of 1920 by 1080 at the origin. Image 1 is the anchor image, image 0 the
  template. The configuration is the one of the specification's example.
\<close>

definition cfg0 :: "(string \<times> int) list" where
  "cfg0 = [(''offset_x'', 10), (''offset_y'', 10), (''w'', 100), (''h'', 50),
           (''margin_x'', 5), (''margin_y'', 5)]"

definition env_with ::
  "(nat locate_args \<Rightarrow> exn + rect list) \<Rightarrow> (rect \<Rightarrow> exn + nat option) \<Rightarrow> (nat, nat) env" where
  "env_with locate capture =
     \<lparr>new_session = Inr (), get_monitors_safe = Inr [(0, 0, 1920, 1080)],
      get_monitor_dpr = (\<lambda>i ms. Inr (Some 1)),
      locateAllOnScreen = locate,
      prepare_capture = capture, to_qimage = (\<lambda>i. Inr i),
      winrt_available = True, recognize = (\<lambda>i l. Inr [''ok''])\<rparr>"

text \<open>
  A search primitive that finds two anchors, and in every searched region one match
  five pixels inside the region's corner.
\<close>

definition locate0 :: "nat locate_args \<Rightarrow> exn + rect list" where
  "locate0 a =
     (if la_image a = Some 1 then Inr [(200, 300, 30, 30), (600, 300, 30, 30)]
      else (case la_region a of
              None \<Rightarrow> Inr []
            | Some (x, y, w, h) \<Rightarrow> Inr [(x + 5, y + 5, 8, 8)]))"

text \<open>A capture primitive that always returns the pixel buffer 7, and one without data.\<close>

definition capture0 :: "rect \<Rightarrow> exn + nat option" where
  "capture0 r = Inr (Some 7)"

definition capture_nothing :: "rect \<Rightarrow> exn + nat option" where
  "capture_nothing r = Inr None"

definition env0 :: "(nat, nat) env" where
  "env0 = env_with locate0 capture0"

text \<open>
  Search primitives that find nothing, that always raise, and that find one anchor but
  raise on every search for the template.
\<close>

definition locate_nothing :: "nat locate_args \<Rightarrow> exn + rect list" where
  "locate_nothing a = Inr []"

definition locate_raises :: "nat locate_args \<Rightarrow> exn + rect list" where
  "locate_raises a = Inl (PyErr ''search failed'')"

definition locate_nested_raises :: "nat locate_args \<Rightarrow> exn + rect list" where
  "locate_nested_raises a =
     (if la_image a = Some 1 then Inr [(200, 300, 30, 30)] else Inl (PyErr ''search failed''))"

definition req0 :: "nat worker" where
  "req0 = \<lparr>mode = ''image'', template_img = Some 0, screen_idx = 0, confidence = 0.9,
           grayscale = True, overlap_threshold = 0.5, anchor_img = Some 1,
           anchor_config = Some cfg0, search_region = None, source_dpr = Some 1,
           source_resolution = None, scaling_type = ''dpr'', ocr_lang = ''en-US'',
           ocr_mode = ''clean'', use_det = False, text_rect = None, text_offsets = None\<rparr>"

text \<open>A configuration whose derived width is \<open>-20 + 2 * 5 = -10\<close>.\<close>

definition cfg_degenerate :: "(string \<times> int) list" where
  "cfg_degenerate = [(''offset_x'', 10), (''offset_y'', 10), (''w'', - 20), (''h'', 50),
                     (''margin_x'', 5), (''margin_y'', 5)]"

definition req_degenerate :: "nat worker" where
  "req_degenerate = req0\<lparr>anchor_config := Some cfg_degenerate\<rparr>"

text \<open>
  Text requests: a static region, a region relative to the anchor, and one with the
  anchor configured but no base rectangle.
\<close>

definition req_text :: "nat worker" where
  "req_text = req0\<lparr>mode := ''text'', anchor_img := None, anchor_config := None,
                    text_rect := Some (10, 10, 20, 20), text_offsets := Some (2, 3, 1, 4)\<rparr>"

definition req_text_anchored :: "nat worker" where
  "req_text_anchored = req0\<lparr>mode := ''text'', text_rect := Some (10, 10, 20, 20),
                             text_offsets := Some (2, 3, 1, 4)\<rparr>"

definition req_anchor_no_rect :: "nat worker" where
  "req_anchor_no_rect = req0\<lparr>mode := ''text''\<rparr>"

section \<open>Auxiliary facts\<close>

lemma ebind_case: "ebind m f = (case m of Inl e \<Rightarrow> Inl e | Inr v \<Rightarrow> f v)"
  by (cases m) simp_all

lemma append_each_append: "append_each xs ys = xs @ ys"
  unfolding append_each_def by (induction ys arbitrary: xs) simp_all

lemma derived_region_keys:
  assumes "map_of cfg ''offset_x'' = Some ox" and "map_of cfg ''offset_y'' = Some oy"
    and "map_of cfg ''w'' = Some w" and "map_of cfg ''h'' = Some h"
  shows "derived_region cfg mx my (ax, ay, aw, ah)
           = Inr (ax + ox - mx, ay + oy - my, w + 2 * mx, h + 2 * my)"
  using assms by (simp add: derived_region_def dict_item_def)

text \<open>
  With a usable configuration the loop records, for every anchor in order, the region
  derived from it.
\<close>

lemma anchor_loop_scanned:
  assumes "map_of cfg ''offset_x'' = Some ox" and "map_of cfg ''offset_y'' = Some oy"
    and "map_of cfg ''w'' = Some w" and "map_of cfg ''h'' = Some h"
    and "0 < w + 2 * mx" and "0 < h + 2 * my"
  shows "anchor_loop env req cfg mx my scr anchors (fr, sc) = Inr (fr', sc') \<Longrightarrow>
         sc' = sc @ map (\<lambda>(ax, ay, aw, ah).
                           (ax + ox - mx, ay + oy - my, w + 2 * mx, h + 2 * my)) anchors"
proof (induction anchors arbitrary: fr sc)
  case Nil
  then show ?case by simp
next
  case (Cons a rest)
  obtain ax ay aw ah where a: "a = (ax, ay, aw, ah)" by (cases a) auto
  obtain sx sy sw sh where scr: "scr = (sx, sy, sw, sh)" by (cases scr) auto
  note IH = Cons.IH [unfolded scr]
  from Cons.prems assms show ?case
    by (auto simp: a scr derived_region_keys ebind_case Let_def split: sum.splits dest: IH)
qed

text \<open>
  With a usable configuration the match list that the loop returns holds, for every
  anchor in order, the result of its nested scan followed by the same result again.
\<close>

lemma anchor_loop_matches:
  assumes "map_of cfg ''offset_x'' = Some ox" and "map_of cfg ''offset_y'' = Some oy"
    and "map_of cfg ''w'' = Some w" and "map_of cfg ''h'' = Some h"
    and "0 < w + 2 * mx" and "0 < h + 2 * my"
  shows "anchor_loop env req cfg mx my (sx, sy, sw, sh) anchors (fr, sc) = Inr (fr', sc') \<Longrightarrow>
         fr' = fr @ concat (map (\<lambda>(ax, ay, aw, ah).
                 (case locateAllOnScreen env (template_args req
                         (Some (ax + ox - mx - sx, ay + oy - my - sy, w + 2 * mx, h + 2 * my))) of
                    Inl e \<Rightarrow> []
                  | Inr targets \<Rightarrow> targets @ targets)) anchors)"
proof (induction anchors arbitrary: fr sc)
  case Nil
  then show ?case by simp
next
  case (Cons a rest)
  obtain ax ay aw ah where a: "a = (ax, ay, aw, ah)" by (cases a) auto
  from Cons.prems assms show ?case
    by (auto simp: a derived_region_keys ebind_case Let_def append_each_append
        split: sum.splits dest: Cons.IH)
qed






lemma py_index_in_range:
  "- int (length xs) \<le> i \<Longrightarrow> i < int (length xs) \<Longrightarrow> \<exists>v. py_index xs i = Inr v"
  by (simp add: py_index_def)

text \<open>With a degenerate configuration the loop leaves its state as it found it.\<close>

lemma anchor_loop_all_skipped:
  assumes "map_of cfg ''offset_x'' = Some ox" and "map_of cfg ''offset_y'' = Some oy"
    and "map_of cfg ''w'' = Some w" and "map_of cfg ''h'' = Some h"
    and "w + 2 * mx \<le> 0 \<or> h + 2 * my \<le> 0"
  shows "anchor_loop env req cfg mx my scr anchors st = Inr st"
proof (induction anchors)
  case Nil
  show ?case by simp
next
  case (Cons a rest)
  obtain ax ay aw ah where a: "a = (ax, ay, aw, ah)" by (cases a) auto
  obtain fr sc where st: "st = (fr, sc)" by (cases st) auto
  from assms Cons.IH show ?case
    by (auto simp: a st derived_region_keys)
qed

text \<open>An exception of one nested scan leaves the loop, whatever came before it.\<close>

lemma anchor_loop_raises:
  assumes "a \<in> set anchors" and "derived_region cfg mx my a = Inr (x, y, w, h)"
    and "0 < w" and "0 < h"
    and "locateAllOnScreen env
           (template_args req (Some (global_to_local (x, y, w, h) (sx, sy)))) = Inl e"
  shows "\<exists>e'. anchor_loop env req cfg mx my (sx, sy, sw, sh) anchors st = Inl e'"
  using assms(1)
proof (induction anchors arbitrary: st)
  case Nil
  then show ?case by simp
next
  case (Cons b rest)
  obtain fr sc where st: "st = (fr, sc)" by (cases st) auto
  show ?case
  proof (cases "b = a")
    case True
    with assms show ?thesis by (simp add: st)
  next
    case False
    with Cons.prems have "a \<in> set rest" by simp
    then have IH: "\<And>st'. \<exists>e'. anchor_loop env req cfg mx my (sx, sy, sw, sh) rest st' = Inl e'"
      by (rule Cons.IH)
    show ?thesis
      by (auto simp: st ebind_case Let_def IH split: sum.splits)
  qed
qed

text \<open>The text pipeline once the session exists and the monitor index is in range.\<close>

lemma text_body_in_range:
  assumes "new_session env = Inr ()" and "get_monitors_safe env = Inr monitors"
    and "- int (length monitors) \<le> screen_idx req" and "screen_idx req < int (length monitors)"
  shows "run_text_extraction_body env req =
     ebind (resolve_final_region env req) (\<lambda>resolved.
       (case resolved of
          Inl early \<Rightarrow> Inr [early]
        | Inr final_region \<Rightarrow>
            (case final_region of
               None \<Rightarrow> Inr [TextSignal None ''No region defined'']
             | Some region \<Rightarrow>
                 ebind (unpack4 (text_offsets req)) (\<lambda>offs.
                   capture_and_recognize env req (apply_offsets region offs)))))"
proof -
  from assms(3,4) obtain scr where "py_index monitors (screen_idx req) = Inr scr"
    using py_index_in_range by blast
  with assms show ?thesis by (simp add: run_text_extraction_body_def)
qed

lemma capture_and_recognize_result:
  "capture_and_recognize env req region = Inr out \<Longrightarrow>
     (prepare_capture env region = Inr None \<and> out = [TextSignal None ''Capture Error''])
     \<or> (\<exists>q txt. prepare_capture env region \<noteq> Inr None \<and> out = [TextSignal (Some q) txt])"
  by (auto simp: capture_and_recognize_def ebind_case Let_def split: sum.splits option.splits)

lemma capture_and_recognize_no_data:
  "prepare_capture env region = Inr None \<Longrightarrow>
     capture_and_recognize env req region = Inr [TextSignal None ''Capture Error'']"
  by (simp add: capture_and_recognize_def)

lemma resolve_final_region_early:
  "resolve_final_region env req = Inr (Inl early) \<Longrightarrow>
     early = TextSignal None ''Anchor not found''"
  by (auto simp: resolve_final_region_def ebind_case Let_def
      split: sum.splits option.splits list.splits if_splits prod.splits)

text \<open>None of the steps of the text pipeline reads the attribute \<open>ocr_lang\<close>.\<close>

lemma resolve_final_region_ocr_lang:
  "resolve_final_region env (req\<lparr>ocr_lang := lang\<rparr>) = resolve_final_region env req"
  by (simp add: resolve_final_region_def anchor_args_def Let_def cong: if_cong list.case_cong)

lemma capture_and_recognize_ocr_lang:
  "capture_and_recognize env (req\<lparr>ocr_lang := lang\<rparr>) region
     = capture_and_recognize env req region"
  by (simp add: capture_and_recognize_def Let_def cong: option.case_cong)

lemma run_text_extraction_body_ocr_lang:
  "run_text_extraction_body env (req\<lparr>ocr_lang := lang\<rparr>) = run_text_extraction_body env req"
  by (simp add: run_text_extraction_body_def resolve_final_region_ocr_lang
      capture_and_recognize_ocr_lang cong: if_cong option.case_cong sum.case_cong)

text \<open>
  The recognition call of the pipeline never reaches the body of
  \<open>get_text_from_image\<close>: \<open>mode\<close> is not one of its parameters.
\<close>

lemma recognition_call_raises:
  "call_get_text_from_image env img [(''mode'', PStr m), (''use_det'', PBool d)]
     = Inl (PyErr (''get_text_from_image() got an unexpected keyword argument ''
                   @ [CHR 0x27] @ ''mode'' @ [CHR 0x27]))"
  by (simp add: call_get_text_from_image_def get_text_from_image_params_def)

section \<open>Match aggregation\<close>

text \<open>
  Claim C1. With an anchor configured, every rectangle returned by a nested scan should
  appear exactly once in the emitted match list. Here two anchors are found and each
  nested scan returns one rectangle; the emitted list holds each of them twice, in
  anchor order, and the count is 4: the append loop of lines 235 and 236 is followed by
  an \<open>extend\<close> with the same sequence on line 237.
\<close>

theorem nested_scan_matches_appended_twice:
  "run_image_detection env0 req0 =
     [ResultSignal [(210, 310, 8, 8), (210, 310, 8, 8), (610, 310, 8, 8), (610, 310, 8, 8)]
        [(200, 300, 30, 30), (600, 300, 30, 30)]
        [(205, 305, 110, 60), (605, 305, 110, 60)] 4]"
  by (simp add: run_image_detection_def run_image_detection_body_def env0_def env_with_def
      locate0_def req0_def cfg0_def py_index_def compute_scale_def anchor_args_def
      template_args_def derived_region_def dict_item_def dict_get_def append_each_def Let_def)

section \<open>Delivery of the text result\<close>

text \<open>
  Claim C2. Every text request should deliver exactly one result, also when the monitor
  index is out of range. With one monitor and \<open>screen_idx = 1\<close> the text pipeline
  emits nothing at all (the bare \<open>return\<close> of line 63), while the image pipeline
  emits the empty result for the same request.
\<close>

theorem text_extraction_out_of_range_emits_nothing:
  "run_text_extraction env0 (req0\<lparr>mode := ''text'', screen_idx := 1\<rparr>) = []
   \<and> run_image_detection env0 (req0\<lparr>screen_idx := 1\<rparr>) = [ResultSignal [] [] [] 0]"
  by (simp add: run_text_extraction_def run_text_extraction_body_def
      run_image_detection_def run_image_detection_body_def env0_def env_with_def req0_def)

section \<open>The derived region\<close>

text \<open>
  Claim C3. For an anchor match \<open>(ax, ay, aw, ah)\<close> and a configuration with offset
  \<open>(ox, oy)\<close>, size \<open>(w, h)\<close> and margins \<open>(mx, my)\<close> the derived region is
  \<open>(ax + ox - mx, ay + oy - my, w + 2 mx, h + 2 my)\<close>; the example of the
  specification gives \<open>(205, 305, 110, 60)\<close>; and whenever the detection pipeline
  completes with an anchor configured and a region of positive size, the scanned
  regions it emits are these regions, one per anchor, in anchor order.
\<close>

theorem derived_region_formula:
  "(map_of cfg ''offset_x'' = Some ox \<longrightarrow> map_of cfg ''offset_y'' = Some oy \<longrightarrow>
    map_of cfg ''w'' = Some w \<longrightarrow> map_of cfg ''h'' = Some h \<longrightarrow>
      derived_region cfg mx my (ax, ay, aw, ah)
        = Inr (ax + ox - mx, ay + oy - my, w + 2 * mx, h + 2 * my))
   \<and> derived_region cfg0 (dict_get cfg0 ''margin_x'' 0) (dict_get cfg0 ''margin_y'' 0)
        (200, 300, 30, 30) = Inr (205, 305, 110, 60)
   \<and> (anchor_img req \<noteq> None \<longrightarrow> anchor_config req = Some cfg \<longrightarrow> cfg \<noteq> [] \<longrightarrow>
      map_of cfg ''offset_x'' = Some ox \<longrightarrow> map_of cfg ''offset_y'' = Some oy \<longrightarrow>
      map_of cfg ''w'' = Some w \<longrightarrow> map_of cfg ''h'' = Some h \<longrightarrow>
      0 < w + 2 * dict_get cfg ''margin_x'' 0 \<longrightarrow> 0 < h + 2 * dict_get cfg ''margin_y'' 0 \<longrightarrow>
      run_image_detection_body env req = Inr [ResultSignal matches anchors scanned n] \<longrightarrow>
        scanned = map (\<lambda>(ax, ay, aw, ah).
                         (ax + ox - dict_get cfg ''margin_x'' 0,
                          ay + oy - dict_get cfg ''margin_y'' 0,
                          w + 2 * dict_get cfg ''margin_x'' 0,
                          h + 2 * dict_get cfg ''margin_y'' 0)) anchors)"
proof (intro conjI impI)
  assume "map_of cfg ''offset_x'' = Some ox" "map_of cfg ''offset_y'' = Some oy"
    "map_of cfg ''w'' = Some w" "map_of cfg ''h'' = Some h"
  then show "derived_region cfg mx my (ax, ay, aw, ah)
        = Inr (ax + ox - mx, ay + oy - my, w + 2 * mx, h + 2 * my)"
    by (rule derived_region_keys)
next
  show "derived_region cfg0 (dict_get cfg0 ''margin_x'' 0) (dict_get cfg0 ''margin_y'' 0)
        (200, 300, 30, 30) = Inr (205, 305, 110, 60)"
    by (simp add: derived_region_def dict_item_def dict_get_def cfg0_def)
next
  assume img: "anchor_img req \<noteq> None" and cfg: "anchor_config req = Some cfg" "cfg \<noteq> []"
    and keys: "map_of cfg ''offset_x'' = Some ox" "map_of cfg ''offset_y'' = Some oy"
      "map_of cfg ''w'' = Some w" "map_of cfg ''h'' = Some h"
    and pos: "0 < w + 2 * dict_get cfg ''margin_x'' 0" "0 < h + 2 * dict_get cfg ''margin_y'' 0"
    and run: "run_image_detection_body env req = Inr [ResultSignal matches anchors scanned n]"
  from cfg have tr: "truthy_dict (anchor_config req)" by (cases cfg) simp_all
  note sc = anchor_loop_scanned [OF keys pos, where sc = "[]", simplified]
  from run img tr cfg show "scanned = map (\<lambda>(ax, ay, aw, ah).
                         (ax + ox - dict_get cfg ''margin_x'' 0,
                          ay + oy - dict_get cfg ''margin_y'' 0,
                          w + 2 * dict_get cfg ''margin_x'' 0,
                          h + 2 * dict_get cfg ''margin_y'' 0)) anchors"
    by (auto simp: run_image_detection_body_def ebind_case Let_def
        split: sum.splits prod.splits if_splits dest: sc)
qed

theorem derived_region_formula_witness:
  "map_of cfg0 ''offset_x'' = Some 10 \<and> map_of cfg0 ''offset_y'' = Some 10
   \<and> map_of cfg0 ''w'' = Some 100 \<and> map_of cfg0 ''h'' = Some 50
   \<and> dict_get cfg0 ''margin_x'' 0 = 5 \<and> dict_get cfg0 ''margin_y'' 0 = 5
   \<and> derived_region cfg0 5 5 (200, 300, 30, 30) = Inr (205, 305, 110, 60)
   \<and> run_image_detection_body env0 req0 =
       Inr [ResultSignal [(210, 310, 8, 8), (210, 310, 8, 8), (610, 310, 8, 8), (610, 310, 8, 8)]
              [(200, 300, 30, 30), (600, 300, 30, 30)]
              [(205, 305, 110, 60), (605, 305, 110, 60)] 4]
   \<and> ([(205, 305, 110, 60), (605, 305, 110, 60)] :: rect list)
       = map (\<lambda>(ax, ay, aw, ah). (ax + 10 - 5, ay + 10 - 5, 100 + 2 * 5, 50 + 2 * 5))
           ([(200, 300, 30, 30), (600, 300, 30, 30)] :: rect list)"
proof -
  have keys: "map_of cfg0 ''offset_x'' = Some 10" "map_of cfg0 ''offset_y'' = Some 10"
    "map_of cfg0 ''w'' = Some 100" "map_of cfg0 ''h'' = Some 50"
    and margins: "dict_get cfg0 ''margin_x'' 0 = 5" "dict_get cfg0 ''margin_y'' 0 = 5"
    by (simp_all add: cfg0_def dict_get_def)
  have run: "run_image_detection_body env0 req0 =
       Inr [ResultSignal [(210, 310, 8, 8), (210, 310, 8, 8), (610, 310, 8, 8), (610, 310, 8, 8)]
              [(200, 300, 30, 30), (600, 300, 30, 30)]
              [(205, 305, 110, 60), (605, 305, 110, 60)] 4]"
    by (simp add: run_image_detection_body_def env0_def env_with_def
      locate0_def req0_def cfg0_def py_index_def compute_scale_def anchor_args_def
      template_args_def derived_region_def dict_item_def dict_get_def append_each_def Let_def)
  have req: "anchor_img req0 \<noteq> None" "anchor_config req0 = Some cfg0" "cfg0 \<noteq> []"
    by (simp_all add: req0_def cfg0_def)
  note inst = derived_region_formula [of cfg0 10 10 100 50 5 5 200 300 30 30 req0 env0
      "[(210, 310, 8, 8), (210, 310, 8, 8), (610, 310, 8, 8), (610, 310, 8, 8)]"
      "[(200, 300, 30, 30), (600, 300, 30, 30)]" "[(205, 305, 110, 60), (605, 305, 110, 60)]" 4]
  from inst keys margins run req show ?thesis by simp
qed

section \<open>Coordinate transforms\<close>




section \<open>Scale factors\<close>

text \<open>
  Claim C5. In \<open>dpr\<close> mode both factors are \<open>target_dpr / source_dpr\<close> when both
  ratios are present and nonzero, and 1 when either is missing or zero. In
  \<open>resolution\<close> mode the factors are \<open>target_w / source_w\<close> and
  \<open>target_h / source_h\<close> when the source resolution is present with both components
  positive, and 1 otherwise. The computation is a total function: it always yields a pair.
\<close>

theorem compute_scale_cases:
  "(scaling_type req = ''dpr'' \<longrightarrow> source_dpr req = Some s \<longrightarrow> s \<noteq> 0 \<longrightarrow> t \<noteq> 0 \<longrightarrow>
       compute_scale req (Some t) scr = (t / s, t / s))
  \<and> (scaling_type req = ''dpr'' \<longrightarrow>
       (source_dpr req = None \<or> source_dpr req = Some 0 \<or> tdpr = None \<or> tdpr = Some 0) \<longrightarrow>
       compute_scale req tdpr scr = (1, 1))
  \<and> (scaling_type req = ''resolution'' \<longrightarrow> source_resolution req = Some (sw, sh) \<longrightarrow>
       0 < sw \<longrightarrow> 0 < sh \<longrightarrow>
       compute_scale req tdpr (mx, my, tw, th)
         = (real_of_int tw / real_of_int sw, real_of_int th / real_of_int sh))
  \<and> (scaling_type req = ''resolution'' \<longrightarrow>
       (source_resolution req = None
        \<or> (\<exists>rw rh. source_resolution req = Some (rw, rh) \<and> (rw \<le> 0 \<or> rh \<le> 0))) \<longrightarrow>
       compute_scale req tdpr scr = (1, 1))"
  by (auto simp: compute_scale_def Let_def split: option.splits prod.splits)

theorem compute_scale_cases_witness:
  "compute_scale (req0\<lparr>source_dpr := Some 2\<rparr>) (Some 3) (0, 0, 1920, 1080) = (3 / 2, 3 / 2)
   \<and> compute_scale (req0\<lparr>source_dpr := Some 0\<rparr>) (Some 3) (0, 0, 1920, 1080) = (1, 1)
   \<and> compute_scale (req0\<lparr>scaling_type := ''resolution'', source_resolution := Some (1920, 1080)\<rparr>)
        None (0, 0, 3840, 2160) = (2, 2)
   \<and> compute_scale (req0\<lparr>scaling_type := ''resolution'', source_resolution := Some (0, 1080)\<rparr>)
        None (0, 0, 3840, 2160) = (1, 1)"
  using compute_scale_cases [where req = "req0\<lparr>source_dpr := Some 2\<rparr>" and s = 2 and t = 3
      and scr = "(0, 0, 1920, 1080)"]
    compute_scale_cases [where req = "req0\<lparr>source_dpr := Some 0\<rparr>" and tdpr = "Some 3"
      and scr = "(0, 0, 1920, 1080)"]
    compute_scale_cases [where req = "req0\<lparr>scaling_type := ''resolution'',
        source_resolution := Some (1920, 1080)\<rparr>" and tdpr = None and sw = 1920 and sh = 1080
      and mx = 0 and my = 0 and tw = 3840 and th = 2160]
    compute_scale_cases [where req = "req0\<lparr>scaling_type := ''resolution'',
        source_resolution := Some (0, 1080)\<rparr>" and tdpr = None and scr = "(0, 0, 3840, 2160)"]
  by (simp add: req0_def)

section \<open>Degenerate regions\<close>

text \<open>
  Claim C6. An anchor whose derived region has width or height at most 0 is skipped:
  the loop goes on with the remaining anchors from the unchanged match list and
  scanned-region list. With such a configuration the pipeline emits the anchors found,
  no match and no scanned region; and in every case it emits exactly one result.
\<close>

theorem degenerate_anchor_skipped:
  "(derived_region cfg mx my anchor = Inr (x, y, w, h) \<longrightarrow> (w \<le> 0 \<or> h \<le> 0) \<longrightarrow>
      anchor_loop env req cfg mx my scr (anchor # rest) (fr, sc)
        = anchor_loop env req cfg mx my scr rest (fr, sc))
   \<and> (new_session env = Inr () \<longrightarrow> get_monitors_safe env = Inr monitors \<longrightarrow>
      - int (length monitors) \<le> screen_idx req \<longrightarrow> screen_idx req < int (length monitors) \<longrightarrow>
      get_monitor_dpr env (screen_idx req) monitors = Inr tdpr \<longrightarrow>
      anchor_img req \<noteq> None \<longrightarrow> anchor_config req = Some cfg \<longrightarrow>
      map_of cfg ''offset_x'' = Some ox \<longrightarrow> map_of cfg ''offset_y'' = Some oy \<longrightarrow>
      map_of cfg ''w'' = Some cw \<longrightarrow> map_of cfg ''h'' = Some ch \<longrightarrow>
      (cw + 2 * dict_get cfg ''margin_x'' 0 \<le> 0 \<or> ch + 2 * dict_get cfg ''margin_y'' 0 \<le> 0) \<longrightarrow>
      locateAllOnScreen env (anchor_args req) = Inr anchors \<longrightarrow>
        run_image_detection env req = [ResultSignal [] anchors [] 0])
   \<and> (\<exists>s. run_image_detection env req = [s])"
proof (intro conjI impI)
  assume "derived_region cfg mx my anchor = Inr (x, y, w, h)" "w \<le> 0 \<or> h \<le> 0"
  then show "anchor_loop env req cfg mx my scr (anchor # rest) (fr, sc)
        = anchor_loop env req cfg mx my scr rest (fr, sc)"
    by auto
next
  assume env: "new_session env = Inr ()" "get_monitors_safe env = Inr monitors"
    "get_monitor_dpr env (screen_idx req) monitors = Inr tdpr"
    "locateAllOnScreen env (anchor_args req) = Inr anchors"
    and idx: "- int (length monitors) \<le> screen_idx req" "screen_idx req < int (length monitors)"
    and req: "anchor_img req \<noteq> None" "anchor_config req = Some cfg"
    and keys: "map_of cfg ''offset_x'' = Some ox" "map_of cfg ''offset_y'' = Some oy"
      "map_of cfg ''w'' = Some cw" "map_of cfg ''h'' = Some ch"
    and deg: "cw + 2 * dict_get cfg ''margin_x'' 0 \<le> 0 \<or> ch + 2 * dict_get cfg ''margin_y'' 0 \<le> 0"
  from keys have "cfg \<noteq> []" by auto
  with req have tr: "truthy_dict (anchor_config req)" by (cases cfg) simp_all
  from idx obtain scr where scr: "py_index monitors (screen_idx req) = Inr scr"
    using py_index_in_range by blast
  note loop = anchor_loop_all_skipped [OF keys deg]
  from env idx req tr scr show "run_image_detection env req = [ResultSignal [] anchors [] 0]"
    by (simp add: run_image_detection_def run_image_detection_body_def loop Let_def
        split: prod.splits)
next
  show "\<exists>s. run_image_detection env req = [s]"
    by (auto simp: run_image_detection_def run_image_detection_body_def ebind_case Let_def
      split: sum.splits prod.splits if_splits)
qed

theorem degenerate_anchor_skipped_witness:
  "derived_region cfg_degenerate 5 5 (200, 300, 30, 30) = Inr (205, 305, - 10, 60)
   \<and> anchor_loop env0 req_degenerate cfg_degenerate 5 5 (0, 0, 1920, 1080)
        [(200, 300, 30, 30), (600, 300, 30, 30)] ([(1, 2, 3, 4)], [])
       = anchor_loop env0 req_degenerate cfg_degenerate 5 5 (0, 0, 1920, 1080)
           [(600, 300, 30, 30)] ([(1, 2, 3, 4)], [])
   \<and> run_image_detection env0 req_degenerate
       = [ResultSignal [] [(200, 300, 30, 30), (600, 300, 30, 30)] [] 0]"
proof -
  have d: "derived_region cfg_degenerate 5 5 (200, 300, 30, 30) = Inr (205, 305, - 10, 60)"
    by (simp add: derived_region_def dict_item_def cfg_degenerate_def)
  have keys: "map_of cfg_degenerate ''offset_x'' = Some 10"
    "map_of cfg_degenerate ''offset_y'' = Some 10"
    "map_of cfg_degenerate ''w'' = Some (- 20)" "map_of cfg_degenerate ''h'' = Some 50"
    "dict_get cfg_degenerate ''margin_x'' 0 = 5" "dict_get cfg_degenerate ''margin_y'' 0 = 5"
    by (simp_all add: cfg_degenerate_def dict_get_def)
  have env: "new_session env0 = Inr ()" "get_monitors_safe env0 = Inr [(0, 0, 1920, 1080)]"
    "get_monitor_dpr env0 0 [(0, 0, 1920, 1080)] = Inr (Some 1)"
    "locateAllOnScreen env0 (anchor_args req_degenerate)
       = Inr [(200, 300, 30, 30), (600, 300, 30, 30)]"
    by (simp_all add: env0_def env_with_def locate0_def anchor_args_def req_degenerate_def req0_def)
  have req: "screen_idx req_degenerate = 0" "anchor_img req_degenerate \<noteq> None"
    "anchor_config req_degenerate = Some cfg_degenerate"
    by (simp_all add: req_degenerate_def req0_def)
  note inst = degenerate_anchor_skipped [where cfg = cfg_degenerate and mx = 5 and my = 5
      and anchor = "(200, 300, 30, 30)" and x = 205 and y = 305 and w = "- 10" and h = 60
      and env = env0 and req = req_degenerate
      and scr = "(0, 0, 1920, 1080)" and rest = "[(600, 300, 30, 30)]"
      and fr = "[(1, 2, 3, 4)]" and sc = "[]" and monitors = "[(0, 0, 1920, 1080)]"
      and tdpr = "Some 1" and ox = 10 and oy = 10 and cw = "- 20" and ch = 50
      and anchors = "[(200, 300, 30, 30), (600, 300, 30, 30)]"]
  from inst d keys env req show ?thesis by simp
qed

section \<open>The empty detection result\<close>

text \<open>
  Claim C7. The detection pipeline emits exactly the empty result \<open>([], [], [], 0)\<close>
  when the anchor search finds no anchor, when the monitor index is at least the number
  of monitors, and when the search primitive raises: in the anchor search, in the direct
  scan, or in the nested scan of some anchor. The result is a value in every case; no
  exception leaves the pipeline.
\<close>

theorem detection_empty_result:
  "(anchor_img req \<noteq> None \<longrightarrow> truthy_dict (anchor_config req) \<longrightarrow>
      locateAllOnScreen env (anchor_args req) = Inr [] \<longrightarrow>
        run_image_detection env req = [ResultSignal [] [] [] 0])
   \<and> (get_monitors_safe env = Inr monitors \<longrightarrow> int (length monitors) \<le> screen_idx req \<longrightarrow>
        run_image_detection env req = [ResultSignal [] [] [] 0])
   \<and> (anchor_img req \<noteq> None \<longrightarrow> truthy_dict (anchor_config req) \<longrightarrow>
      locateAllOnScreen env (anchor_args req) = Inl e \<longrightarrow>
        run_image_detection env req = [ResultSignal [] [] [] 0])
   \<and> ((anchor_img req = None \<or> \<not> truthy_dict (anchor_config req)) \<longrightarrow>
      locateAllOnScreen env (template_args req (search_region req)) = Inl e \<longrightarrow>
        run_image_detection env req = [ResultSignal [] [] [] 0])
   \<and> (get_monitors_safe env = Inr monitors \<longrightarrow>
      py_index monitors (screen_idx req) = Inr (sx, sy, sw, sh) \<longrightarrow>
      anchor_img req \<noteq> None \<longrightarrow> anchor_config req = Some cfg \<longrightarrow> cfg \<noteq> [] \<longrightarrow>
      locateAllOnScreen env (anchor_args req) = Inr anchors \<longrightarrow> a \<in> set anchors \<longrightarrow>
      derived_region cfg (dict_get cfg ''margin_x'' 0) (dict_get cfg ''margin_y'' 0) a
        = Inr (x, y, w, h) \<longrightarrow> 0 < w \<longrightarrow> 0 < h \<longrightarrow>
      locateAllOnScreen env (template_args req (Some (x - sx, y - sy, w, h))) = Inl e \<longrightarrow>
        run_image_detection env req = [ResultSignal [] [] [] 0])"
proof (intro conjI impI)
  assume "anchor_img req \<noteq> None" "truthy_dict (anchor_config req)"
    "locateAllOnScreen env (anchor_args req) = Inr []"
  then show "run_image_detection env req = [ResultSignal [] [] [] 0]"
    by (cases "anchor_config req")
      (auto simp: run_image_detection_def run_image_detection_body_def ebind_case Let_def
        split: sum.splits prod.splits)
next
  assume "get_monitors_safe env = Inr monitors" "int (length monitors) \<le> screen_idx req"
  then show "run_image_detection env req = [ResultSignal [] [] [] 0]"
    by (auto simp: run_image_detection_def run_image_detection_body_def ebind_case
        split: sum.splits)
next
  assume "anchor_img req \<noteq> None" "truthy_dict (anchor_config req)"
    "locateAllOnScreen env (anchor_args req) = Inl e"
  then show "run_image_detection env req = [ResultSignal [] [] [] 0]"
    by (auto simp: run_image_detection_def run_image_detection_body_def ebind_case Let_def
        split: sum.splits prod.splits)
next
  assume "anchor_img req = None \<or> \<not> truthy_dict (anchor_config req)"
    "locateAllOnScreen env (template_args req (search_region req)) = Inl e"
  then show "run_image_detection env req = [ResultSignal [] [] [] 0]"
    by (auto simp: run_image_detection_def run_image_detection_body_def ebind_case Let_def
        split: sum.splits prod.splits)
next
  assume mon: "get_monitors_safe env = Inr monitors"
    "py_index monitors (screen_idx req) = Inr (sx, sy, sw, sh)"
    and req: "anchor_img req \<noteq> None" "anchor_config req = Some cfg" "cfg \<noteq> []"
    and anc: "locateAllOnScreen env (anchor_args req) = Inr anchors" "a \<in> set anchors"
    and reg: "derived_region cfg (dict_get cfg ''margin_x'' 0) (dict_get cfg ''margin_y'' 0) a
        = Inr (x, y, w, h)" "0 < w" "0 < h"
    and scan: "locateAllOnScreen env (template_args req (Some (x - sx, y - sy, w, h))) = Inl e"
  from scan have scan': "locateAllOnScreen env
      (template_args req (Some (global_to_local (x, y, w, h) (sx, sy)))) = Inl e"
    by simp
  from anchor_loop_raises [OF anc(2) reg scan'] obtain e' where
    "anchor_loop env req cfg (dict_get cfg ''margin_x'' 0) (dict_get cfg ''margin_y'' 0)
       (sx, sy, sw, sh) anchors ([], []) = Inl e'"
    by blast
  moreover from req have "truthy_dict (anchor_config req)" by (cases cfg) simp_all
  ultimately show "run_image_detection env req = [ResultSignal [] [] [] 0]"
    using mon req anc(1)
    by (auto simp: run_image_detection_def run_image_detection_body_def ebind_case Let_def
        split: sum.splits prod.splits)
qed

theorem detection_empty_result_witness:
  "run_image_detection (env_with locate_nothing capture0) req0 = [ResultSignal [] [] [] 0]
   \<and> run_image_detection env0 (req0\<lparr>screen_idx := 1\<rparr>) = [ResultSignal [] [] [] 0]
   \<and> run_image_detection (env_with locate_raises capture0) req0 = [ResultSignal [] [] [] 0]
   \<and> run_image_detection (env_with locate_raises capture0) (req0\<lparr>anchor_img := None\<rparr>)
       = [ResultSignal [] [] [] 0]
   \<and> run_image_detection (env_with locate_nested_raises capture0) req0
       = [ResultSignal [] [] [] 0]"
proof -
  have req: "anchor_img req0 \<noteq> None" "truthy_dict (anchor_config req0)"
    "anchor_config req0 = Some cfg0" "cfg0 \<noteq> []" "screen_idx req0 = 0"
    by (simp_all add: req0_def cfg0_def)
  have none: "locateAllOnScreen (env_with locate_nothing capture0) (anchor_args req0) = Inr []"
    by (simp add: env_with_def locate_nothing_def)
  have mons: "get_monitors_safe env0 = Inr [(0, 0, 1920, 1080)]"
    "get_monitors_safe (env_with locate_nested_raises capture0) = Inr [(0, 0, 1920, 1080)]"
    "int (length [(0, 0, 1920, 1080 :: int)]) \<le> screen_idx (req0\<lparr>screen_idx := 1\<rparr>)"
    "py_index [(0, 0, 1920, 1080) :: rect] 0 = Inr (0, 0, 1920, 1080)"
    by (simp_all add: env0_def env_with_def py_index_def)
  have raises: "locateAllOnScreen (env_with locate_raises capture0) (anchor_args req0)
      = Inl (PyErr ''search failed'')"
    "anchor_img (req0\<lparr>anchor_img := None\<rparr>) = None"
    "locateAllOnScreen (env_with locate_raises capture0)
       (template_args (req0\<lparr>anchor_img := None\<rparr>) (search_region (req0\<lparr>anchor_img := None\<rparr>)))
      = Inl (PyErr ''search failed'')"
    by (simp_all add: env_with_def locate_raises_def)
  have nested: "locateAllOnScreen (env_with locate_nested_raises capture0) (anchor_args req0)
      = Inr [(200, 300, 30, 30)]"
    "derived_region cfg0 (dict_get cfg0 ''margin_x'' 0) (dict_get cfg0 ''margin_y'' 0)
       (200, 300, 30, 30) = Inr (205, 305, 110, 60)"
    "locateAllOnScreen (env_with locate_nested_raises capture0)
       (template_args req0 (Some (205 - 0, 305 - 0, 110, 60))) = Inl (PyErr ''search failed'')"
    by (simp_all add: env_with_def locate_nested_raises_def anchor_args_def template_args_def
        req0_def derived_region_def dict_item_def dict_get_def cfg0_def)
  note i1 = detection_empty_result [where req = req0 and env = "env_with locate_nothing capture0"]
  note i2 = detection_empty_result [where req = "req0\<lparr>screen_idx := 1\<rparr>" and env = env0
      and monitors = "[(0, 0, 1920, 1080)]"]
  note i3 = detection_empty_result [where req = req0 and env = "env_with locate_raises capture0"
      and e = "PyErr ''search failed''"]
  note i4 = detection_empty_result [where req = "req0\<lparr>anchor_img := None\<rparr>"
      and env = "env_with locate_raises capture0" and e = "PyErr ''search failed''"]
  note i5 = detection_empty_result [where req = req0
      and env = "env_with locate_nested_raises capture0" and monitors = "[(0, 0, 1920, 1080)]"
      and sx = 0 and sy = 0 and sw = 1920 and sh = 1080 and cfg = cfg0
      and anchors = "[(200, 300, 30, 30)]" and a = "(200, 300, 30, 30)"
      and x = 205 and y = 305 and w = 110 and h = 60 and e = "PyErr ''search failed''"]
  from i1 req none have r1: "run_image_detection (env_with locate_nothing capture0) req0
      = [ResultSignal [] [] [] 0]" by simp
  from i2 mons have r2: "run_image_detection env0 (req0\<lparr>screen_idx := 1\<rparr>)
      = [ResultSignal [] [] [] 0]" by simp
  from i3 req raises have r3: "run_image_detection (env_with locate_raises capture0) req0
      = [ResultSignal [] [] [] 0]" by simp
  from i4 raises have r4: "run_image_detection (env_with locate_raises capture0)
      (req0\<lparr>anchor_img := None\<rparr>) = [ResultSignal [] [] [] 0]" by simp
  from i5 req mons nested have r5: "run_image_detection (env_with locate_nested_raises capture0) req0
      = [ResultSignal [] [] [] 0]" by simp
  from r1 r2 r3 r4 r5 show ?thesis by simp
qed

section \<open>Fine-tuning offsets\<close>

text \<open>
  Claim C8. For a resolved region \<open>(x, y, w, h)\<close> and offsets
  \<open>(top, bottom, left, right)\<close> the adjusted region is
  \<open>(x - left, y - top, w + left + right, h + top + bottom)\<close>; the offsets
  \<open>(2, 3, 1, 4)\<close> applied to \<open>(10, 10, 20, 20)\<close> give \<open>(9, 8, 25, 25)\<close>; and
  this adjusted region is the one the text pipeline hands to the capture primitive.
\<close>

theorem fine_tune_offsets:
  "apply_offsets (x, y, w, h) (t, b, l, r) = (x - l, y - t, w + l + r, h + t + b)
   \<and> apply_offsets (10, 10, 20, 20) (2, 3, 1, 4) = (9, 8, 25, 25)
   \<and> (new_session env = Inr () \<longrightarrow> get_monitors_safe env = Inr monitors \<longrightarrow>
      - int (length monitors) \<le> screen_idx req \<longrightarrow> screen_idx req < int (length monitors) \<longrightarrow>
      resolve_final_region env req = Inr (Inr (Some (x, y, w, h))) \<longrightarrow>
      text_offsets req = Some (t, b, l, r) \<longrightarrow>
        run_text_extraction_body env req
          = capture_and_recognize env req (x - l, y - t, w + l + r, h + t + b))"
proof (intro conjI impI)
  show "apply_offsets (x, y, w, h) (t, b, l, r) = (x - l, y - t, w + l + r, h + t + b)"
    by (simp add: apply_offsets_def)
  show "apply_offsets (10, 10, 20, 20) (2, 3, 1, 4) = (9, 8, 25, 25)"
    by (simp add: apply_offsets_def)
next
  assume env: "new_session env = Inr ()" "get_monitors_safe env = Inr monitors"
    and idx: "- int (length monitors) \<le> screen_idx req" "screen_idx req < int (length monitors)"
    and reg: "resolve_final_region env req = Inr (Inr (Some (x, y, w, h)))"
    and offs: "text_offsets req = Some (t, b, l, r)"
  from reg offs show "run_text_extraction_body env req
          = capture_and_recognize env req (x - l, y - t, w + l + r, h + t + b)"
    by (simp add: text_body_in_range [OF env idx] apply_offsets_def)
qed

theorem fine_tune_offsets_witness:
  "resolve_final_region env0 req_text = Inr (Inr (Some (10, 10, 20, 20)))
   \<and> text_offsets req_text = Some (2, 3, 1, 4)
   \<and> run_text_extraction_body env0 req_text = capture_and_recognize env0 req_text (9, 8, 25, 25)
   \<and> resolve_final_region env0 req_text_anchored = Inr (Inr (Some (210, 310, 20, 20)))
   \<and> run_text_extraction_body env0 req_text_anchored
       = capture_and_recognize env0 req_text_anchored (209, 308, 25, 25)"
proof -
  have env: "new_session env0 = Inr ()" "get_monitors_safe env0 = Inr [(0, 0, 1920, 1080)]"
    by (simp_all add: env0_def env_with_def)
  have static: "resolve_final_region env0 req_text = Inr (Inr (Some (10, 10, 20, 20)))"
    "text_offsets req_text = Some (2, 3, 1, 4)" "screen_idx req_text = 0"
    by (simp_all add: resolve_final_region_def req_text_def req0_def)
  have anchored: "resolve_final_region env0 req_text_anchored = Inr (Inr (Some (210, 310, 20, 20)))"
    "text_offsets req_text_anchored = Some (2, 3, 1, 4)" "screen_idx req_text_anchored = 0"
    by (simp_all add: resolve_final_region_def req_text_anchored_def req0_def cfg0_def
        env0_def env_with_def locate0_def anchor_args_def)
  note i1 = fine_tune_offsets [where env = env0 and req = req_text
      and monitors = "[(0, 0, 1920, 1080)]" and x = 10 and y = 10 and w = 20 and h = 20
      and t = 2 and b = 3 and l = 1 and r = 4]
  note i2 = fine_tune_offsets [where env = env0 and req = req_text_anchored
      and monitors = "[(0, 0, 1920, 1080)]" and x = 210 and y = 310 and w = 20 and h = 20
      and t = 2 and b = 3 and l = 1 and r = 4]
  from i1 env static have r1: "run_text_extraction_body env0 req_text
      = capture_and_recognize env0 req_text (9, 8, 25, 25)" by simp
  from i2 env anchored have r2: "run_text_extraction_body env0 req_text_anchored
      = capture_and_recognize env0 req_text_anchored (209, 308, 25, 25)" by simp
  from r1 r2 static anchored show ?thesis by simp
qed

section \<open>Failure reasons of the text pipeline\<close>

text \<open>
  Claim C9, as stated: "No region defined" is reported exactly when no anchor is
  configured and there is no base rectangle. It fails: here the anchor image and the
  anchor configuration are both set, the base rectangle is absent, and the pipeline
  reports "No region defined".
\<close>

theorem no_region_with_anchor_configured:
  "anchor_img req_anchor_no_rect = Some 1 \<and> anchor_config req_anchor_no_rect = Some cfg0
   \<and> text_rect req_anchor_no_rect = None
   \<and> run_text_extraction env0 req_anchor_no_rect = [TextSignal None ''No region defined'']"
  by (simp add: run_text_extraction_def run_text_extraction_body_def resolve_final_region_def
      py_index_def env0_def env_with_def req_anchor_no_rect_def req0_def)

text \<open>
  Claim C9, amended. When the session is created and the monitor index is in range,
  the text pipeline emits exactly one signal, and it reports "Anchor not found" exactly
  when anchor image, anchor configuration and base rectangle are all set and the anchor
  search returns no match; "No region defined" exactly when the base rectangle is
  absent, whether or not an anchor is configured; and "Capture Error" exactly when a
  region is resolved, the offsets are present and the capture primitive returns no data
  for the adjusted region. The three reports are different values of the one emitted
  signal, so no two of them occur together.
\<close>

theorem text_failure_reasons:
  assumes "new_session env = Inr ()" and "get_monitors_safe env = Inr monitors"
    and "- int (length monitors) \<le> screen_idx req" and "screen_idx req < int (length monitors)"
  shows "(run_text_extraction env req = [TextSignal None ''Anchor not found''] \<longleftrightarrow>
            anchor_img req \<noteq> None \<and> truthy_dict (anchor_config req) \<and> text_rect req \<noteq> None
            \<and> locateAllOnScreen env (anchor_args req) = Inr [])
       \<and> (run_text_extraction env req = [TextSignal None ''No region defined''] \<longleftrightarrow>
            text_rect req = None)
       \<and> (run_text_extraction env req = [TextSignal None ''Capture Error''] \<longleftrightarrow>
            (\<exists>region offs. resolve_final_region env req = Inr (Inr (Some region))
               \<and> text_offsets req = Some offs
               \<and> prepare_capture env (apply_offsets region offs) = Inr None))
       \<and> (\<exists>s. run_text_extraction env req = [s])"
proof (intro conjI)
  note body = text_body_in_range [OF assms]
  show "run_text_extraction env req = [TextSignal None ''Anchor not found''] \<longleftrightarrow>
            anchor_img req \<noteq> None \<and> truthy_dict (anchor_config req) \<and> text_rect req \<noteq> None
            \<and> locateAllOnScreen env (anchor_args req) = Inr []"
    by (auto simp: run_text_extraction_def body resolve_final_region_def ebind_case Let_def
        split: sum.splits option.splits exn.splits list.splits if_splits prod.splits
        dest!: capture_and_recognize_result)
  show "run_text_extraction env req = [TextSignal None ''No region defined''] \<longleftrightarrow>
            text_rect req = None"
    by (auto simp: run_text_extraction_def body resolve_final_region_def ebind_case Let_def
        split: sum.splits option.splits exn.splits list.splits if_splits prod.splits
        dest!: capture_and_recognize_result)
  show "run_text_extraction env req = [TextSignal None ''Capture Error''] \<longleftrightarrow>
            (\<exists>region offs. resolve_final_region env req = Inr (Inr (Some region))
               \<and> text_offsets req = Some offs
               \<and> prepare_capture env (apply_offsets region offs) = Inr None)"
  proof (cases "resolve_final_region env req")
    case (Inl e)
    then show ?thesis
      by (simp add: run_text_extraction_def body split: exn.splits)
  next
    case (Inr resolved)
    show ?thesis
    proof (cases resolved)
      case (Inl early)
      with Inr resolve_final_region_early [of env req early] show ?thesis
        by (simp add: run_text_extraction_def body)
    next
      case final: (Inr final_region)
      show ?thesis
      proof (cases final_region)
        case None
        with Inr final show ?thesis
          by (simp add: run_text_extraction_def body)
      next
        case (Some region)
        with Inr final show ?thesis
          by (cases "text_offsets req")
            (auto simp: run_text_extraction_def body capture_and_recognize_no_data
              split: sum.splits exn.splits dest!: capture_and_recognize_result)
      qed
    qed
  qed
  show "\<exists>s. run_text_extraction env req = [s]"
    by (auto simp: run_text_extraction_def body resolve_final_region_def ebind_case Let_def
        split: sum.splits option.splits exn.splits list.splits if_splits prod.splits
        dest!: capture_and_recognize_result)
qed

theorem text_failure_reasons_witness:
  "run_text_extraction (env_with locate_nothing capture0) req_text_anchored
     = [TextSignal None ''Anchor not found'']
   \<and> run_text_extraction env0 (req_text\<lparr>text_rect := None\<rparr>)
     = [TextSignal None ''No region defined'']
   \<and> run_text_extraction (env_with locate0 capture_nothing) req_text_anchored
     = [TextSignal None ''Capture Error'']"
proof -
  have env: "new_session (env_with locate_nothing capture0) = Inr ()"
    "get_monitors_safe (env_with locate_nothing capture0) = Inr [(0, 0, 1920, 1080)]"
    "new_session env0 = Inr ()" "get_monitors_safe env0 = Inr [(0, 0, 1920, 1080)]"
    "new_session (env_with locate0 capture_nothing) = Inr ()"
    "get_monitors_safe (env_with locate0 capture_nothing) = Inr [(0, 0, 1920, 1080)]"
    by (simp_all add: env0_def env_with_def)
  have idx: "- int (length [(0, 0, 1920, 1080) :: rect]) \<le> screen_idx req_text_anchored"
    "screen_idx req_text_anchored < int (length [(0, 0, 1920, 1080) :: rect])"
    "- int (length [(0, 0, 1920, 1080) :: rect]) \<le> screen_idx (req_text\<lparr>text_rect := None\<rparr>)"
    "screen_idx (req_text\<lparr>text_rect := None\<rparr>) < int (length [(0, 0, 1920, 1080) :: rect])"
    by (simp_all add: req_text_anchored_def req_text_def req0_def)
  have not_found: "anchor_img req_text_anchored \<noteq> None"
    "truthy_dict (anchor_config req_text_anchored)" "text_rect req_text_anchored \<noteq> None"
    "locateAllOnScreen (env_with locate_nothing capture0) (anchor_args req_text_anchored) = Inr []"
    by (simp_all add: req_text_anchored_def req0_def cfg0_def env_with_def locate_nothing_def)
  have no_rect: "text_rect (req_text\<lparr>text_rect := None\<rparr>) = None"
    by simp
  have no_data: "resolve_final_region (env_with locate0 capture_nothing) req_text_anchored
      = Inr (Inr (Some (210, 310, 20, 20)))"
    "text_offsets req_text_anchored = Some (2, 3, 1, 4)"
    "prepare_capture (env_with locate0 capture_nothing)
       (apply_offsets (210, 310, 20, 20) (2, 3, 1, 4)) = Inr None"
    by (simp_all add: resolve_final_region_def req_text_anchored_def req0_def cfg0_def
        env_with_def locate0_def anchor_args_def capture_nothing_def)
  note i1 = text_failure_reasons [OF env(1,2) idx(1,2)]
  note i2 = text_failure_reasons [OF env(3,4) idx(3,4)]
  note i3 = text_failure_reasons [OF env(5,6) idx(1,2)]
  from i1 not_found have r1: "run_text_extraction (env_with locate_nothing capture0)
      req_text_anchored = [TextSignal None ''Anchor not found'']" by blast
  from i2 no_rect have r2: "run_text_extraction env0 (req_text\<lparr>text_rect := None\<rparr>)
      = [TextSignal None ''No region defined'']" by blast
  from i3 no_data have r3: "run_text_extraction (env_with locate0 capture_nothing)
      req_text_anchored = [TextSignal None ''Capture Error'']" by blast
  from r1 r2 r3 show ?thesis by simp
qed

section \<open>The recognition language\<close>

text \<open>
  Claim C10. Two text requests that differ only in \<open>ocr_lang\<close> emit the same
  signals, image and text alike: the recognition call of the pipeline passes the
  keywords \<open>mode\<close> and \<open>use_det\<close> and never the configured language.
\<close>

theorem ocr_lang_not_forwarded:
  "run_text_extraction env (req\<lparr>ocr_lang := lang1\<rparr>)
     = run_text_extraction env (req\<lparr>ocr_lang := lang2\<rparr>)
   \<and> capture_and_recognize env (req\<lparr>ocr_lang := lang1\<rparr>) region
       = capture_and_recognize env (req\<lparr>ocr_lang := lang2\<rparr>) region"
  by (simp add: run_text_extraction_def run_text_extraction_body_ocr_lang
      capture_and_recognize_ocr_lang)

end
